theory Spec2Isabelle
  imports Complex_Main
begin

section \<open>Vectors and the GLSL built-ins used by the fragment shader\<close>

text \<open>
  The shader computes in \<^verbatim>\<open>highp float\<close>. The embedding computes in \<^typ>\<open>real\<close>: the
  formulas are those of \<^verbatim>\<open>src/shaders/fragment.glsl\<close>, rounding is not modelled. A GLSL
  division by zero has no defined result; in HOL \<open>x / 0 = 0\<close>, so every statement about a
  guarded division is made about the denominator itself.
\<close>

datatype vec3 = vec3 (vx: real) (vy: real) (vz: real)

instantiation vec3 :: "{zero, plus, minus, uminus, times}"
begin

definition zero_vec3 :: vec3 where
  "zero_vec3 = vec3 0 0 0"

definition plus_vec3 :: "vec3 \<Rightarrow> vec3 \<Rightarrow> vec3" where
  "plus_vec3 a b = vec3 (vx a + vx b) (vy a + vy b) (vz a + vz b)"

definition minus_vec3 :: "vec3 \<Rightarrow> vec3 \<Rightarrow> vec3" where
  "minus_vec3 a b = vec3 (vx a - vx b) (vy a - vy b) (vz a - vz b)"

definition uminus_vec3 :: "vec3 \<Rightarrow> vec3" where
  "uminus_vec3 a = vec3 (- vx a) (- vy a) (- vz a)"

text \<open>GLSL \<^verbatim>\<open>vec3 * vec3\<close> is componentwise.\<close>

definition times_vec3 :: "vec3 \<Rightarrow> vec3 \<Rightarrow> vec3" where
  "times_vec3 a b = vec3 (vx a * vx b) (vy a * vy b) (vz a * vz b)"

instance ..

end

text \<open>\<^verbatim>\<open>vec3(s)\<close>, \<^verbatim>\<open>v * s\<close> (and \<^verbatim>\<open>s * v\<close>), \<^verbatim>\<open>v / s\<close> and the componentwise \<^verbatim>\<open>v / w\<close>.\<close>

definition splat :: "real \<Rightarrow> vec3" where
  "splat s = vec3 s s s"

definition scale :: "vec3 \<Rightarrow> real \<Rightarrow> vec3" where
  "scale v s = vec3 (vx v * s) (vy v * s) (vz v * s)"

definition divs :: "vec3 \<Rightarrow> real \<Rightarrow> vec3" where
  "divs v s = vec3 (vx v / s) (vy v / s) (vz v / s)"

definition divv :: "vec3 \<Rightarrow> vec3 \<Rightarrow> vec3" where
  "divv a b = vec3 (vx a / vx b) (vy a / vy b) (vz a / vz b)"

definition dot :: "vec3 \<Rightarrow> vec3 \<Rightarrow> real" where
  "dot a b = vx a * vx b + vy a * vy b + vz a * vz b"

definition length3 :: "vec3 \<Rightarrow> real" where
  "length3 v = sqrt (dot v v)"

definition normalize :: "vec3 \<Rightarrow> vec3" where
  "normalize v = divs v (length3 v)"

definition reflect :: "vec3 \<Rightarrow> vec3 \<Rightarrow> vec3" where
  "reflect I N = I - scale N (2 * dot N I)"

definition clamp :: "real \<Rightarrow> real \<Rightarrow> real \<Rightarrow> real" where
  "clamp x minVal maxVal = min (max x minVal) maxVal"

text \<open>\<^verbatim>\<open>pow(x, y)\<close>; on vectors it is applied to each component.\<close>

definition pow :: "real \<Rightarrow> real \<Rightarrow> real" where
  "pow x y = x powr y"

definition pow3 :: "vec3 \<Rightarrow> vec3 \<Rightarrow> vec3" where
  "pow3 a b = vec3 (pow (vx a) (vx b)) (pow (vy a) (vy b)) (pow (vz a) (vz b))"

definition max3 :: "vec3 \<Rightarrow> vec3 \<Rightarrow> vec3" where
  "max3 a b = vec3 (max (vx a) (vx b)) (max (vy a) (vy b)) (max (vz a) (vz b))"

definition mix :: "vec3 \<Rightarrow> vec3 \<Rightarrow> real \<Rightarrow> vec3" where
  "mix a b t = scale a (1 - t) + scale b t"

definition radians :: "real \<Rightarrow> real" where
  "radians degrees = pi / 180 * degrees"

text \<open>
  \<^verbatim>\<open>smoothstep(edge0, edge1, x)\<close>. GLSL ES 3.00 defines it for \<open>edge0 < edge1\<close> as the
  Hermite interpolation
  \<^verbatim>\<open>t = clamp((x - edge0) / (edge1 - edge0), 0.0, 1.0); return t * t * (3.0 - 2.0 * t);\<close>
  and leaves the result undefined for \<open>edge0 \<ge> edge1\<close>. What an implementation returns
  there is the parameter \<open>sstep\<close> of the embedding; \<open>hermite\<close> is the formula. The distance
  fade of the shader calls \<^verbatim>\<open>smoothstep(lightRange, lightRange * 0.5, distance)\<close>, which for a
  positive range is the undefined case.
\<close>

definition hermite :: "real \<Rightarrow> real \<Rightarrow> real \<Rightarrow> real" where
  "hermite edge0 edge1 x =
     (let t = clamp ((x - edge0) / (edge1 - edge0)) 0 1 in t * t * (3 - 2 * t))"

definition smoothstep ::
  "(real \<Rightarrow> real \<Rightarrow> real \<Rightarrow> real) \<Rightarrow> real \<Rightarrow> real \<Rightarrow> real \<Rightarrow> real" where
  "smoothstep sstep edge0 edge1 x =
     (if edge0 < edge1 then hermite edge0 edge1 x else sstep edge0 edge1 x)"

section \<open>The fragment shader\<close>

definition PI :: real where
  "PI = 3.14159265359"

definition MAX_LIGHTS :: int where
  "MAX_LIGHTS = 8"

definition LIGHT_DIRECTIONAL :: int where
  "LIGHT_DIRECTIONAL = 0"

definition LIGHT_POINT :: int where
  "LIGHT_POINT = 1"

definition LIGHT_SPOT :: int where
  "LIGHT_SPOT = 2"

subsection \<open>PBR functions\<close>

text \<open>
  The denominator of \<^verbatim>\<open>DistributionGGX\<close> (its local \<^verbatim>\<open>denom\<close> after both assignments)
  and that of \<^verbatim>\<open>GeometrySchlickGGX\<close> are named, so that the divisions can be discussed.
\<close>

definition DistributionGGX_denom :: "vec3 \<Rightarrow> vec3 \<Rightarrow> real \<Rightarrow> real" where
  "DistributionGGX_denom N H roughness =
     (let a = roughness * roughness;
          a2 = a * a;
          NdotH = max (dot N H) 0;
          NdotH2 = NdotH * NdotH;
          denom = NdotH2 * (a2 - 1) + 1
      in PI * denom * denom)"

definition DistributionGGX :: "vec3 \<Rightarrow> vec3 \<Rightarrow> real \<Rightarrow> real" where
  "DistributionGGX N H roughness =
     (let a = roughness * roughness;
          a2 = a * a
      in a2 / DistributionGGX_denom N H roughness)"

definition GeometrySchlickGGX_denom :: "real \<Rightarrow> real \<Rightarrow> real" where
  "GeometrySchlickGGX_denom NdotV roughness =
     (let r = roughness + 1;
          k = (r * r) / 8
      in NdotV * (1 - k) + k)"

definition GeometrySchlickGGX :: "real \<Rightarrow> real \<Rightarrow> real" where
  "GeometrySchlickGGX NdotV roughness = NdotV / GeometrySchlickGGX_denom NdotV roughness"





definition GeometrySmith :: "vec3 \<Rightarrow> vec3 \<Rightarrow> vec3 \<Rightarrow> real \<Rightarrow> real" where
  "GeometrySmith N V L roughness =
     (let NdotV = max (dot N V) 0;
          NdotL = max (dot N L) 0;
          ggx2 = GeometrySchlickGGX NdotV roughness;
          ggx1 = GeometrySchlickGGX NdotL roughness
      in ggx1 * ggx2)"

definition fresnelSchlick :: "real \<Rightarrow> vec3 \<Rightarrow> vec3" where
  "fresnelSchlick cosTheta F0 =
     F0 + scale (splat 1 - F0) (pow (clamp (1 - cosTheta) 0 1) 5)"

definition fresnelSchlickRoughness :: "real \<Rightarrow> vec3 \<Rightarrow> real \<Rightarrow> vec3" where
  "fresnelSchlickRoughness cosTheta F0 roughness =
     F0 + scale (max3 (splat (1 - roughness)) F0 - F0) (pow (clamp (1 - cosTheta) 0 1) 5)"

subsection \<open>IBL functions\<close>

definition sampleSky :: "vec3 \<Rightarrow> vec3" where
  "sampleSky direction =
     (let horizon = vy direction;
          skyColor = mix (vec3 0.4 0.7 1.0) (vec3 1.0 0.9 0.7) (pow (max 0 (- horizon)) 0.5);
          sunDir = normalize (vec3 0.3 0.8 0.2);
          sunDot = max (dot direction sunDir) 0
      in skyColor + scale (scale (vec3 1.0 0.8 0.4) (pow sunDot 128)) 2)"

definition sampleIrradiance :: "vec3 \<Rightarrow> vec3" where
  "sampleIrradiance normal =
     (let skyUp = sampleSky (vec3 0 1 0);
          skyDown = sampleSky (vec3 0 (-1) 0);
          skyForward = sampleSky normal
      in scale (skyUp + skyDown + scale skyForward 2) 0.25)"

definition sampleRadiance :: "vec3 \<Rightarrow> real \<Rightarrow> vec3" where
  "sampleRadiance reflectDir roughness = scale (sampleSky reflectDir) (1 - roughness * 0.7)"

subsection \<open>Lighting\<close>

text \<open>
  \<^verbatim>\<open>calculateLightContribution\<close> in three parts. \<open>lightVector\<close> is the chain of branches on
  the light type (lines 148 to 170): it yields the light vector \<open>L\<close> and the attenuation.
  \<open>L\<close> is declared without a value; for a light type other than 0, 1 and 2 no branch
  assigns it and the attenuation stays 1, so the shader goes on to read an indeterminate
  \<open>L\<close>: that outcome is \<open>None\<close>. \<open>distanceAttenuation\<close> is the pair of statements the Point
  and the Spot branch share (lines 156, 157 and 161, 162). \<open>diffuseTerm\<close> is the local
  \<^verbatim>\<open>diffuse\<close> (lines 189 to 193) and \<open>shade\<close> the rest of the body after the early return.
\<close>

definition distanceAttenuation ::
  "(real \<Rightarrow> real \<Rightarrow> real \<Rightarrow> real) \<Rightarrow> real \<Rightarrow> real \<Rightarrow> real \<Rightarrow> real" where
  "distanceAttenuation sstep lightIntensity lightRange distance =
     (let attenuation = lightIntensity / (distance * distance)
      in attenuation * smoothstep sstep lightRange (lightRange * 0.5) distance)"

definition lightVector ::
  "(real \<Rightarrow> real \<Rightarrow> real \<Rightarrow> real) \<Rightarrow> int \<Rightarrow> vec3 \<Rightarrow> vec3 \<Rightarrow> real \<Rightarrow> real \<Rightarrow> real \<Rightarrow> real \<Rightarrow> vec3 \<Rightarrow>
   (vec3 \<times> real) option" where
  "lightVector sstep lightType lightPos lightDir lightIntensity lightRange innerCone outerCone
       worldPos =
     (if lightType = LIGHT_DIRECTIONAL then
        Some (normalize (- lightDir), 1)
      else if lightType = LIGHT_POINT then
        (let L = normalize (lightPos - worldPos);
             distance = length3 (lightPos - worldPos);
             attenuation = distanceAttenuation sstep lightIntensity lightRange distance
         in Some (L, attenuation))
      else if lightType = LIGHT_SPOT then
        (let L = normalize (lightPos - worldPos);
             distance = length3 (lightPos - worldPos);
             attenuation = distanceAttenuation sstep lightIntensity lightRange distance;
             spotDir = normalize lightDir;
             cosTheta = dot L (- spotDir);
             innerCos = cos (radians innerCone);
             outerCos = cos (radians outerCone);
             coneAttenuation = smoothstep sstep outerCos innerCos cosTheta
         in Some (L, attenuation * coneAttenuation))
      else None)"

definition diffuseTerm :: "vec3 \<Rightarrow> real \<Rightarrow> vec3 \<Rightarrow> vec3" where
  "diffuseTerm F metallic albedo =
     (let kS = F;
          kD = splat 1 - kS;
          kD = scale kD (1 - metallic)
      in divs (kD * albedo) PI)"

definition specularTerm :: "vec3 \<Rightarrow> vec3 \<Rightarrow> vec3 \<Rightarrow> vec3 \<Rightarrow> real \<Rightarrow> vec3 \<Rightarrow> vec3" where
  "specularTerm L N V H roughness F =
     (let NdotV = max (dot N V) 0;
          NdotL = max (dot N L) 0;
          D = DistributionGGX N H roughness;
          G = GeometrySmith N V L roughness;
          numerator = scale F (D * G);
          denominator = 4 * NdotV * NdotL + 0.0001
      in divs numerator denominator)"

definition shade ::
  "vec3 \<Rightarrow> real \<Rightarrow> vec3 \<Rightarrow> vec3 \<Rightarrow> vec3 \<Rightarrow> vec3 \<Rightarrow> real \<Rightarrow> real \<Rightarrow> vec3 \<Rightarrow> vec3" where
  "shade L attenuation lightColor N V albedo metallic roughness F0 =
     (let H = normalize (V + L);
          NdotL = max (dot N L) 0;
          HdotV = max (dot H V) 0;
          F = fresnelSchlick HdotV F0;
          specular = specularTerm L N V H roughness F;
          diffuse = diffuseTerm F metallic albedo;
          radiance = scale lightColor attenuation
      in scale ((diffuse + specular) * radiance) NdotL)"

definition calculateLightContribution ::
  "(real \<Rightarrow> real \<Rightarrow> real \<Rightarrow> real) \<Rightarrow> int \<Rightarrow> vec3 \<Rightarrow> vec3 \<Rightarrow> vec3 \<Rightarrow> real \<Rightarrow> real \<Rightarrow> real \<Rightarrow> real \<Rightarrow>
   vec3 \<Rightarrow> vec3 \<Rightarrow> vec3 \<Rightarrow> vec3 \<Rightarrow> real \<Rightarrow> real \<Rightarrow> vec3 \<Rightarrow> vec3 option" where
  "calculateLightContribution sstep lightType lightPos lightDir lightColor lightIntensity
       lightRange innerCone outerCone worldPos N V albedo metallic roughness F0 =
     (case lightVector sstep lightType lightPos lightDir lightIntensity lightRange innerCone
             outerCone worldPos of
        None \<Rightarrow> None
      | Some (L, attenuation) \<Rightarrow>
          if attenuation < 0.001 then Some (splat 0)
          else Some (shade L attenuation lightColor N V albedo metallic roughness F0))"

subsection \<open>Main shader\<close>

text \<open>
  The uniforms of the fragment shader. An array uniform of size \<^verbatim>\<open>MAX_LIGHTS\<close> is a
  function of the index; the shader reads it at the indices its loop reaches.
\<close>

record uniforms =
  u_cameraPosition :: vec3
  u_numLights :: int
  u_lightTypes :: "int \<Rightarrow> int"
  u_lightPositions :: "int \<Rightarrow> vec3"
  u_lightDirections :: "int \<Rightarrow> vec3"
  u_lightColors :: "int \<Rightarrow> vec3"
  u_lightIntensities :: "int \<Rightarrow> real"
  u_lightRanges :: "int \<Rightarrow> real"
  u_lightInnerCones :: "int \<Rightarrow> real"
  u_lightOuterCones :: "int \<Rightarrow> real"
  u_useIBL :: bool
  u_iblIntensity :: real
  u_ambientColor :: vec3
  u_albedo :: vec3
  u_metallic :: real
  u_roughness :: real
  u_ao :: real

text \<open>Line 207, \<^verbatim>\<open>float roughness = u_roughness;\<close>: the roughness every later call receives.\<close>

definition main_roughness :: "uniforms \<Rightarrow> real" where
  "main_roughness U = u_roughness U"

text \<open>The call in the body of the light loop, for the light at index \<open>i\<close>.\<close>

definition lightAt ::
  "(real \<Rightarrow> real \<Rightarrow> real \<Rightarrow> real) \<Rightarrow> uniforms \<Rightarrow> vec3 \<Rightarrow> vec3 \<Rightarrow> vec3 \<Rightarrow> vec3 \<Rightarrow> real \<Rightarrow> real \<Rightarrow> vec3 \<Rightarrow>
   int \<Rightarrow> vec3 option" where
  "lightAt sstep U worldPos N V albedo metallic roughness F0 i =
     calculateLightContribution sstep (u_lightTypes U i) (u_lightPositions U i)
       (u_lightDirections U i) (u_lightColors U i) (u_lightIntensities U i)
       (u_lightRanges U i) (u_lightInnerCones U i) (u_lightOuterCones U i)
       worldPos N V albedo metallic roughness F0"

text \<open>
  \<^verbatim>\<open>for (int i = 0; i < u_numLights && i < MAX_LIGHTS; i++) Lo += ...\<close>, from the index
  \<open>i\<close> and the radiance \<open>Lo\<close> accumulated so far.
\<close>

function lightLoop ::
  "(real \<Rightarrow> real \<Rightarrow> real \<Rightarrow> real) \<Rightarrow> uniforms \<Rightarrow> vec3 \<Rightarrow> vec3 \<Rightarrow> vec3 \<Rightarrow> vec3 \<Rightarrow> real \<Rightarrow> real \<Rightarrow> vec3 \<Rightarrow>
   int \<Rightarrow> vec3 \<Rightarrow> vec3 option"
  where
  "lightLoop sstep U worldPos N V albedo metallic roughness F0 i Lo =
     (if i < u_numLights U \<and> i < MAX_LIGHTS then
        (case lightAt sstep U worldPos N V albedo metallic roughness F0 i of
           None \<Rightarrow> None
         | Some c \<Rightarrow>
             lightLoop sstep U worldPos N V albedo metallic roughness F0 (i + 1) (Lo + c))
      else Some Lo)"
  by pat_completeness auto
termination
  by (relation "measure (\<lambda>(sstep, U, worldPos, N, V, albedo, metallic, roughness, F0, i, Lo).
        nat (MAX_LIGHTS - i))") auto

declare lightLoop.simps [simp del]

text \<open>
  The two summands of the IBL branch (lines 246 to 260): \<open>iblDiffuseTerm\<close> is
  \<^verbatim>\<open>kD * diffuse\<close> and \<open>iblSpecularTerm\<close> is the local \<^verbatim>\<open>specular\<close>.
\<close>

definition iblDiffuseTerm :: "vec3 \<Rightarrow> vec3 \<Rightarrow> real \<Rightarrow> vec3 \<Rightarrow> vec3" where
  "iblDiffuseTerm N albedo metallic F =
     (let irradiance = sampleIrradiance N;
          diffuse = irradiance * albedo;
          kS = F;
          kD = splat 1 - kS;
          kD = scale kD (1 - metallic)
      in kD * diffuse)"

definition iblSpecularTerm :: "vec3 \<Rightarrow> real \<Rightarrow> vec3 \<Rightarrow> vec3" where
  "iblSpecularTerm R roughness F =
     (let prefilteredColor = sampleRadiance R roughness
      in prefilteredColor * F)"

definition ambientTerm ::
  "uniforms \<Rightarrow> vec3 \<Rightarrow> vec3 \<Rightarrow> vec3 \<Rightarrow> vec3 \<Rightarrow> real \<Rightarrow> real \<Rightarrow> real \<Rightarrow> vec3 \<Rightarrow> vec3" where
  "ambientTerm U N V R albedo metallic roughness ao F0 =
     (if u_useIBL U then
        (let NdotV = max (dot N V) 0;
             F = fresnelSchlickRoughness NdotV F0 roughness
         in scale (scale (iblDiffuseTerm N albedo metallic F + iblSpecularTerm R roughness F) ao)
              (u_iblIntensity U))
      else scale (u_ambientColor U * albedo) ao)"

text \<open>\<^verbatim>\<open>main\<close>: the result is \<^verbatim>\<open>fragColor\<close>, the colour and the alpha 1.\<close>

definition main ::
  "(real \<Rightarrow> real \<Rightarrow> real \<Rightarrow> real) \<Rightarrow> uniforms \<Rightarrow> vec3 \<Rightarrow> vec3 \<Rightarrow> (vec3 \<times> real) option" where
  "main sstep U v_worldPosition v_normal =
     (let albedo = pow3 (u_albedo U) (splat 2.2);
          metallic = u_metallic U;
          roughness = main_roughness U;
          ao = u_ao U;
          N = normalize v_normal;
          V = normalize (u_cameraPosition U - v_worldPosition);
          R = reflect (- V) N;
          F0 = splat 0.04;
          F0 = mix F0 albedo metallic
      in case lightLoop sstep U v_worldPosition N V albedo metallic roughness F0 0 (splat 0) of
           None \<Rightarrow> None
         | Some Lo \<Rightarrow>
             (let ambient = ambientTerm U N V R albedo metallic roughness ao F0;
                  color = ambient + Lo;
                  color = divv color (color + splat 1);
                  color = pow3 color (splat (1 / 2.2))
              in Some (color, 1)))"

text \<open>
  What the specification says of the light loop: the contributions of the lights at the
  listed indices, added to \<open>Lo\<close> in order.
\<close>

fun accumulate :: "(int \<Rightarrow> vec3 option) \<Rightarrow> int list \<Rightarrow> vec3 \<Rightarrow> vec3 option" where
  "accumulate f [] Lo = Some Lo"
| "accumulate f (i # is) Lo =
     (case f i of None \<Rightarrow> None | Some c \<Rightarrow> accumulate f is (Lo + c))"


section \<open>Scene objects and their materials\<close>

text \<open>
  \<^verbatim>\<open>scene-object.js\<close>. JavaScript arrays and objects are held by reference, so the
  embedding has a store: arrays and material objects live at references, and a material
  object holds its albedo as a reference to an array. A property of a material record may
  be missing (\<open>None\<close>, JavaScript's \<^verbatim>\<open>undefined\<close>); likewise an array element, after a
  write beyond the end of the array. Numbers are reals, so \<^verbatim>\<open>NaN\<close> does not occur.
\<close>

type_synonym ref = nat

record material =
  mat_albedo :: "ref option"
  mat_metallic :: "real option"
  mat_roughness :: "real option"
  mat_ao :: "real option"

record store =
  arrays :: "ref \<Rightarrow> real option list option"
  materials :: "ref \<Rightarrow> material option"
  next_ref :: ref

datatype js_error = TypeError

text \<open>An array literal and an object literal allocate at the next free reference.\<close>

definition new_array :: "real list \<Rightarrow> store \<Rightarrow> ref \<times> store" where
  "new_array xs s =
     (next_ref s,
      s\<lparr>arrays := (arrays s)(next_ref s \<mapsto> map Some xs), next_ref := Suc (next_ref s)\<rparr>)"

definition new_material :: "material \<Rightarrow> store \<Rightarrow> ref \<times> store" where
  "new_material m s =
     (next_ref s,
      s\<lparr>materials := (materials s)(next_ref s \<mapsto> m), next_ref := Suc (next_ref s)\<rparr>)"

text \<open>
  \<^verbatim>\<open>x || d\<close> for a property \<open>x\<close> that is a number or missing: \<^verbatim>\<open>undefined\<close> and \<open>0\<close> are
  falsy and give the default \<open>d\<close>. An array is truthy whatever it holds, so
  \<^verbatim>\<open>material.albedo || [0.7, 0.7, 0.7]\<close> is the very array of the argument when there is one.
\<close>

definition or_default :: "real option \<Rightarrow> real \<Rightarrow> real" where
  "or_default x d = (case x of None \<Rightarrow> d | Some v \<Rightarrow> if v = 0 then d else v)"

text \<open>
  The constructor of \<^verbatim>\<open>SceneObject\<close>. Lines 7 to 14 set \<^verbatim>\<open>this.mesh\<close> and
  \<^verbatim>\<open>this.material\<close>; the argument \<open>material\<close> is a reference to a material record, and
  reading a property of something that is no object throws a \<^verbatim>\<open>TypeError\<close>. Lines 16 to
  38 build position, rotation, scale and the model matrix from the \<open>transform\<close> argument
  with gl-matrix and touch none of the material: here the argument \<open>modelMatrix\<close> stands for
  the matrix they compute. A matrix is the list of its 16 entries; of a mesh
  (\<^verbatim>\<open>mesh.js\<close>) the vertex array object and the index count are kept.
\<close>

type_synonym mat4 = "real list"

record mesh =
  vertexArray :: "nat option"
  indexCount :: nat

record sceneObject =
  so_mesh :: "mesh option"
  so_material :: ref
  so_modelMatrix :: mat4

definition SceneObject_constructor ::
  "mesh option \<Rightarrow> ref \<Rightarrow> mat4 \<Rightarrow> store \<Rightarrow> js_error + (sceneObject \<times> store)" where
  "SceneObject_constructor mesh material modelMatrix s =
     (case materials s material of
        None \<Rightarrow> Inl TypeError
      | Some m \<Rightarrow>
          (let (albedo, s1) =
                 (case mat_albedo m of
                    Some a \<Rightarrow> (a, s)
                  | None \<Rightarrow> new_array [0.7, 0.7, 0.7] s);
               (this_material, s2) =
                 new_material
                   \<lparr> mat_albedo = Some albedo,
                     mat_metallic = Some (or_default (mat_metallic m) 0.0),
                     mat_roughness = Some (or_default (mat_roughness m) 0.5),
                     mat_ao = Some (or_default (mat_ao m) 1.0) \<rparr> s1
           in Inr (\<lparr> so_mesh = mesh, so_material = this_material,
                     so_modelMatrix = modelMatrix \<rparr>, s2)))"

text \<open>
  The mutations a holder of a scene object can make to its material:
  \<^verbatim>\<open>obj.material.albedo[i] = v\<close> (an assignment past the end extends the array and leaves
  holes) and \<^verbatim>\<open>obj.material.roughness = v\<close>; and the reading of an albedo through a
  reference to a material.
\<close>

definition array_write :: "real option list \<Rightarrow> nat \<Rightarrow> real \<Rightarrow> real option list" where
  "array_write xs i v =
     (if i < length xs then xs[i := Some v]
      else xs @ replicate (i - length xs) None @ [Some v])"

definition set_albedo_component ::
  "sceneObject \<Rightarrow> nat \<Rightarrow> real \<Rightarrow> store \<Rightarrow> js_error + store" where
  "set_albedo_component obj i v s =
     (case materials s (so_material obj) of
        None \<Rightarrow> Inl TypeError
      | Some m \<Rightarrow>
          (case mat_albedo m of
             None \<Rightarrow> Inl TypeError
           | Some a \<Rightarrow>
               (case arrays s a of
                  None \<Rightarrow> Inl TypeError
                | Some xs \<Rightarrow> Inr (s\<lparr>arrays := (arrays s)(a \<mapsto> array_write xs i v)\<rparr>))))"

definition set_roughness :: "sceneObject \<Rightarrow> real \<Rightarrow> store \<Rightarrow> js_error + store" where
  "set_roughness obj v s =
     (case materials s (so_material obj) of
        None \<Rightarrow> Inl TypeError
      | Some m \<Rightarrow>
          Inr (s\<lparr>materials := (materials s)(so_material obj \<mapsto> m\<lparr>mat_roughness := Some v\<rparr>)\<rparr>))"

definition albedo_of :: "ref \<Rightarrow> store \<Rightarrow> real option list option" where
  "albedo_of material s =
     (case materials s material of
        None \<Rightarrow> None
      | Some m \<Rightarrow> (case mat_albedo m of None \<Rightarrow> None | Some a \<Rightarrow> arrays s a))"

definition roughness_of :: "ref \<Rightarrow> store \<Rightarrow> real option" where
  "roughness_of material s =
     (case materials s material of None \<Rightarrow> None | Some m \<Rightarrow> mat_roughness m)"

text \<open>
  A store as \<^verbatim>\<open>PBRRenderer\<close> has it before \<^verbatim>\<open>init\<close> builds the scene: the albedo array
  \<^verbatim>\<open>[0.7, 0.3, 0.3]\<close> at reference 0 and one material record, with the given scalar
  properties, at reference 1.
\<close>

definition rendererStore :: "real option \<Rightarrow> real option \<Rightarrow> real option \<Rightarrow> store" where
  "rendererStore metal rough occlusion =
     \<lparr> arrays = Map.empty(0 \<mapsto> [Some 0.7, Some 0.3, Some 0.3]),
       materials = Map.empty(1 \<mapsto> \<lparr> mat_albedo = Some 0, mat_metallic = metal,
                                     mat_roughness = rough, mat_ao = occlusion \<rparr>),
       next_ref = 2 \<rparr>"

text \<open>
  The scenario of two objects built from one record: both are constructed from the
  record at \<open>material\<close>, then \<open>mutate\<close> changes the material of the first. The result is what
  is then read as albedo and roughness through the first object, through the second
  object and through the source record.
\<close>

definition two_objects ::
  "ref \<Rightarrow> (sceneObject \<Rightarrow> store \<Rightarrow> js_error + store) \<Rightarrow> store \<Rightarrow>
   ((real option list option \<times> real option) \<times> (real option list option \<times> real option) \<times>
    (real option list option \<times> real option)) option" where
  "two_objects material mutate s =
     (case SceneObject_constructor None material [] s of
        Inl e \<Rightarrow> None
      | Inr (a, s1) \<Rightarrow>
          (case SceneObject_constructor None material [] s1 of
             Inl e \<Rightarrow> None
           | Inr (b, s2) \<Rightarrow>
               (case mutate a s2 of
                  Inl e \<Rightarrow> None
                | Inr s3 \<Rightarrow>
                    Some ((albedo_of (so_material a) s3, roughness_of (so_material a) s3),
                          (albedo_of (so_material b) s3, roughness_of (so_material b) s3),
                          (albedo_of material s3, roughness_of material s3)))))"

section \<open>The orbit camera\<close>

text \<open>
  \<^verbatim>\<open>camera.js\<close>. The state of a \<^verbatim>\<open>Camera\<close> that its view depends on, and the bounds of
  the zoom. \<^verbatim>\<open>mat4.lookAt\<close> belongs to gl-matrix: the functions take it as the parameter
  \<open>lookAt\<close> (eye, centre, up).
\<close>

record camera =
  position :: vec3
  target :: vec3
  up :: vec3
  radius :: real
  azimuth :: real
  elevation :: real
  zoomSpeed :: real
  minRadius :: real
  maxRadius :: real
  viewMatrix :: mat4
  projectionMatrix :: mat4

definition updateViewMatrix :: "(vec3 \<Rightarrow> vec3 \<Rightarrow> vec3 \<Rightarrow> mat4) \<Rightarrow> camera \<Rightarrow> camera" where
  "updateViewMatrix lookAt c =
     (let x = radius c * cos (elevation c) * cos (azimuth c);
          y = radius c * sin (elevation c);
          z = radius c * cos (elevation c) * sin (azimuth c);
          c = c\<lparr>position := vec3 x y z\<rparr>;
          c = c\<lparr>position := position c + target c\<rparr>
      in c\<lparr>viewMatrix := lookAt (position c) (target c) (up c)\<rparr>)"

definition setTarget ::
  "(vec3 \<Rightarrow> vec3 \<Rightarrow> vec3 \<Rightarrow> mat4) \<Rightarrow> real \<Rightarrow> real \<Rightarrow> real \<Rightarrow> camera \<Rightarrow> camera" where
  "setTarget lookAt x y z c = updateViewMatrix lookAt (c\<lparr>target := vec3 x y z\<rparr>)"

definition setRadius :: "(vec3 \<Rightarrow> vec3 \<Rightarrow> vec3 \<Rightarrow> mat4) \<Rightarrow> real \<Rightarrow> camera \<Rightarrow> camera" where
  "setRadius lookAt r c =
     updateViewMatrix lookAt (c\<lparr>radius := max (minRadius c) (min (maxRadius c) r)\<rparr>)"

definition onWheel :: "(vec3 \<Rightarrow> vec3 \<Rightarrow> vec3 \<Rightarrow> mat4) \<Rightarrow> real \<Rightarrow> camera \<Rightarrow> camera" where
  "onWheel lookAt deltaY c =
     (let delta = (if deltaY > 0 then 1 else - 1);
          c = c\<lparr>radius := radius c + delta * zoomSpeed c\<rparr>;
          c = c\<lparr>radius := max (minRadius c) (min (maxRadius c) (radius c))\<rparr>
      in updateViewMatrix lookAt c)"

text \<open>
  The constructor, up to the projection: \<^verbatim>\<open>mat4.create()\<close> is the identity matrix, and
  \<^verbatim>\<open>updateProjectionMatrix\<close> (gl-matrix's \<^verbatim>\<open>mat4.perspective\<close>) is left out, so the
  projection matrix stays the identity here.
\<close>

definition mat4_create :: mat4 where
  "mat4_create = [1, 0, 0, 0,  0, 1, 0, 0,  0, 0, 1, 0,  0, 0, 0, 1]"

definition Camera_constructor :: "(vec3 \<Rightarrow> vec3 \<Rightarrow> vec3 \<Rightarrow> mat4) \<Rightarrow> camera" where
  "Camera_constructor lookAt =
     updateViewMatrix lookAt
       \<lparr> position = vec3 0 0 5, target = vec3 0 0 0, up = vec3 0 1 0,
         radius = 5.0, azimuth = 0.0, elevation = 0.0,
         zoomSpeed = 0.1, minRadius = 1.0, maxRadius = 20.0,
         viewMatrix = mat4_create, projectionMatrix = mat4_create \<rparr>"

text \<open>
  What the specification says the position is:
  \<open>target + radius * (cos(elevation) cos(azimuth), sin(elevation), cos(elevation) sin(azimuth))\<close>.
\<close>

definition orbitPosition :: "camera \<Rightarrow> vec3" where
  "orbitPosition c =
     target c + scale (vec3 (cos (elevation c) * cos (azimuth c)) (sin (elevation c))
                         (cos (elevation c) * sin (azimuth c))) (radius c)"

section \<open>Uniform binding and the frame\<close>

subsection \<open>JavaScript values and the WebGL context\<close>

text \<open>
  The values the host hands to the uniform manager: \<^verbatim>\<open>undefined\<close>, a number, an
  \<^verbatim>\<open>Array\<close>, or a \<^verbatim>\<open>Float32Array\<close> (the vectors and matrices of gl-matrix).
\<close>

datatype jsval = Undefined | Num real | Arr "jsval list" | F32 "real list"

text \<open>The type tag of \<^verbatim>\<open>getActiveUniform(...).type\<close>; any other tag is \<open>GL_OTHER\<close> with its number.\<close>

datatype gltype =
    GL_FLOAT | GL_FLOAT_VEC2 | GL_FLOAT_VEC3 | GL_FLOAT_VEC4 | GL_FLOAT_MAT3 | GL_FLOAT_MAT4
  | GL_INT | GL_SAMPLER_2D | GL_SAMPLER_CUBE | GL_BOOL | GL_OTHER nat

text \<open>
  The calls the frame makes on the WebGL context, with the uniform location as a number.
  The context is a collaborator outside the repository: the embedding keeps the history
  of the calls it accepted, and takes its behaviour as two parameters, \<open>throws\<close> (whether
  a call raises a JavaScript exception, given the history) and \<open>getError\<close> (the error code
  the context reports, 0 for \<^verbatim>\<open>NO_ERROR\<close>). Whatever the context holds, the bound uniform
  values among it, is a function of that history.
\<close>

datatype glcall =
    clear
  | useProgram
  | uniform1f nat jsval
  | uniform2fv nat jsval
  | uniform3fv nat jsval
  | uniform4fv nat jsval
  | uniformMatrix3fv nat bool jsval
  | uniformMatrix4fv nat bool jsval
  | uniform1i nat jsval
  | bindVertexArray "nat option"
  | drawElements nat

datatype logline = console_warn string | console_error string

record world =
  glcalls :: "glcall list"
  console :: "logline list"

record glenv =
  throws :: "glcall list \<Rightarrow> glcall \<Rightarrow> bool"
  getError :: "glcall list \<Rightarrow> nat"

text \<open>A call on the context: \<open>Inl\<close> when it throws, \<open>Inr\<close> with the call recorded otherwise.\<close>

definition gl :: "glenv \<Rightarrow> glcall \<Rightarrow> world \<Rightarrow> world + world" where
  "gl env call w =
     (if throws env (glcalls w) call then Inl w
      else Inr (w\<lparr>glcalls := glcalls w @ [call]\<rparr>))"

definition log_line :: "logline \<Rightarrow> world \<Rightarrow> world" where
  "log_line l w = w\<lparr>console := console w @ [l]\<rparr>"

subsection \<open>UniformManager\<close>

text \<open>
  \<^verbatim>\<open>webgl-utils.js\<close>. The two maps \<^verbatim>\<open>cacheUniforms\<close> fills at construction: a name
  that is not a key gives \<open>None\<close> (\<^verbatim>\<open>undefined\<close>), and a key may hold the location
  \<^verbatim>\<open>null\<close> (\<open>Some None\<close>).
\<close>

record uniformManager =
  uniformLocations :: "string \<Rightarrow> nat option option"
  uniformInfo :: "string \<Rightarrow> gltype option"

text \<open>
  The constructor with \<^verbatim>\<open>cacheUniforms\<close>: \<open>active\<close> is what the context reports for the
  linked program, for each active uniform its name, its location (or \<^verbatim>\<open>null\<close>) and its type.
  The \<^verbatim>\<open>console.log\<close> that lists the cached names is left out.
\<close>

definition cacheUniforms :: "(string \<times> nat option \<times> gltype) list \<Rightarrow> uniformManager" where
  "cacheUniforms active =
     foldl (\<lambda>um (name, location, ty).
              um\<lparr>uniformLocations := (uniformLocations um)(name \<mapsto> location),
                 uniformInfo := (uniformInfo um)(name \<mapsto> ty)\<rparr>)
       \<lparr>uniformLocations = Map.empty, uniformInfo = Map.empty\<rparr> active"

definition hasUniform :: "uniformManager \<Rightarrow> string \<Rightarrow> bool" where
  "hasUniform um name = (uniformLocations um name \<noteq> None)"

text \<open>\<^verbatim>\<open>values[0]\<close> of the rest parameter, \<^verbatim>\<open>Array.isArray\<close>, the test of line 166, \<^verbatim>\<open>Array.from\<close>.\<close>

definition first_value :: "jsval list \<Rightarrow> jsval" where
  "first_value values = (case values of [] \<Rightarrow> Undefined | v # _ \<Rightarrow> v)"

fun isArray :: "jsval \<Rightarrow> bool" where
  "isArray (Arr xs) = True"
| "isArray v = False"

fun object_of_length3 :: "jsval \<Rightarrow> bool" where
  "object_of_length3 (Arr xs) = (3 \<le> length xs)"
| "object_of_length3 (F32 xs) = (3 \<le> length xs)"
| "object_of_length3 v = False"

fun Array_from :: "jsval \<Rightarrow> jsval" where
  "Array_from (F32 xs) = Arr (map Num xs)"
| "Array_from (Arr xs) = Arr xs"
| "Array_from v = Arr []"

text \<open>The decimal digits of a number, for the template literals.\<close>

fun decimal :: "nat \<Rightarrow> string" where
  "decimal n =
     (if n < 10 then [''0123456789'' ! n]
      else decimal (n div 10) @ [''0123456789'' ! (n mod 10)])"

declare decimal.simps [simp del]

text \<open>
  The \<^verbatim>\<open>switch\<close> of \<^verbatim>\<open>setUniform\<close>: the call it makes for a type, or the default case
  with the number of the type.
\<close>

datatype switch_result = Call glcall | Unsupported nat

definition uniformCall :: "gltype \<Rightarrow> nat \<Rightarrow> jsval list \<Rightarrow> switch_result" where
  "uniformCall ty location values =
     (case ty of
        GL_FLOAT \<Rightarrow> Call (uniform1f location (first_value values))
      | GL_FLOAT_VEC2 \<Rightarrow>
          (if isArray (first_value values) then Call (uniform2fv location (first_value values))
           else Call (uniform2fv location (Arr values)))
      | GL_FLOAT_VEC3 \<Rightarrow>
          (if isArray (first_value values) then Call (uniform3fv location (first_value values))
           else if object_of_length3 (first_value values)
             then Call (uniform3fv location (Array_from (first_value values)))
           else Call (uniform3fv location (Arr values)))
      | GL_FLOAT_VEC4 \<Rightarrow>
          (if isArray (first_value values) then Call (uniform4fv location (first_value values))
           else Call (uniform4fv location (Arr values)))
      | GL_FLOAT_MAT3 \<Rightarrow> Call (uniformMatrix3fv location False (first_value values))
      | GL_FLOAT_MAT4 \<Rightarrow> Call (uniformMatrix4fv location False (first_value values))
      | GL_INT \<Rightarrow> Call (uniform1i location (first_value values))
      | GL_SAMPLER_2D \<Rightarrow> Call (uniform1i location (first_value values))
      | GL_SAMPLER_CUBE \<Rightarrow> Call (uniform1i location (first_value values))
      | GL_BOOL \<Rightarrow> Call (uniform1i location (first_value values))
      | GL_OTHER n \<Rightarrow> Unsupported n)"

text \<open>
  The five \<^verbatim>\<open>console.error\<close> lines of the \<^verbatim>\<open>catch\<close> block; of each line the text is kept
  and the object printed after it is left out.
\<close>

definition log_uniform_error :: "string \<Rightarrow> world \<Rightarrow> world" where
  "log_uniform_error name w =
     w\<lparr>console := console w @
        [console_error (''Error setting uniform '' @ [CHR 0x27] @ name @ [CHR 0x27] @ '':''),
         console_error ''Values:'',
         console_error ''Info:'',
         console_error ''Value type:'',
         console_error ''Value content:'']\<rparr>"

definition warn_not_found :: "string \<Rightarrow> world \<Rightarrow> world" where
  "warn_not_found name w =
     log_line (console_warn (''Uniform '' @ [CHR 0x27] @ name @ [CHR 0x27] @ '' not found'')) w"

text \<open>
  \<^verbatim>\<open>setUniform(name, ...values)\<close>. A method returns (\<open>Inr\<close>) or throws (\<open>Inl\<close>), with the
  world it leaves. Reading \<^verbatim>\<open>info.type\<close> of a missing \<open>info\<close> throws inside the \<^verbatim>\<open>try\<close>, as
  a throwing call on the context does; either way the \<^verbatim>\<open>catch\<close> block logs and the method
  returns.
\<close>

definition setUniform ::
  "glenv \<Rightarrow> uniformManager \<Rightarrow> string \<Rightarrow> jsval list \<Rightarrow> world \<Rightarrow> world + world" where
  "setUniform env um name values w =
     (case uniformLocations um name of
        None \<Rightarrow> Inr (warn_not_found name w)
      | Some None \<Rightarrow> Inr (warn_not_found name w)
      | Some (Some location) \<Rightarrow>
          (case uniformInfo um name of
             None \<Rightarrow> Inr (log_uniform_error name w)
           | Some ty \<Rightarrow>
               (case uniformCall ty location values of
                  Unsupported n \<Rightarrow>
                    Inr (log_line (console_warn (''Unsupported uniform type: '' @ decimal n)) w)
                | Call call \<Rightarrow>
                    (case gl env call w of
                       Inr w' \<Rightarrow> Inr w'
                     | Inl w' \<Rightarrow> Inr (log_uniform_error name w')))))"

subsection \<open>Mesh.render and checkGLError\<close>



subsection \<open>PBRRenderer.render\<close>
































text \<open>
  A concrete frame for the closed statements below. The context never throws and reports
  no error. The renderer is as the constructor and \<^verbatim>\<open>init\<close> leave it: the camera, the three
  lights (sun, point light, spot light), the IBL settings, and one scene object built on
  the material record of \<open>rendererStore\<close>; the stand-in for \<^verbatim>\<open>mat4.lookAt\<close> returns the
  identity. The cache holds the uniforms that the frame binds, with a location each; a light
  array is cached once, under the name of its element 0, which is how
  \<^verbatim>\<open>getActiveUniform\<close> names an array uniform.
\<close>

definition quietContext :: glenv where
  "quietContext = \<lparr>throws = (\<lambda>h c. False), getError = (\<lambda>h. 0)\<rparr>"




section \<open>Properties of the shading core\<close>

text \<open>
  C9. For a Directional light the value of \<^verbatim>\<open>calculateLightContribution\<close> does not depend
  on the intensity argument: two calls that differ only in the intensity of a directional
  light return the same radiance, since the attenuation stays 1 and the directional
  branch never reads the intensity.
\<close>

theorem directional_ignores_intensity:
  "calculateLightContribution sstep LIGHT_DIRECTIONAL lightPos lightDir lightColor intensity1
       lightRange innerCone outerCone worldPos N V albedo metallic roughness F0
   = calculateLightContribution sstep LIGHT_DIRECTIONAL lightPos lightDir lightColor intensity2
       lightRange innerCone outerCone worldPos N V albedo metallic roughness F0"
  by (simp add: calculateLightContribution_def lightVector_def)

subsection \<open>The light loop\<close>

lemma lightLoop_accumulate:
  "lightLoop sstep U worldPos N V albedo metallic roughness F0 i Lo
   = accumulate (lightAt sstep U worldPos N V albedo metallic roughness F0)
       [i .. min (u_numLights U) MAX_LIGHTS - 1] Lo"
proof (induction sstep U worldPos N V albedo metallic roughness F0 i Lo rule: lightLoop.induct)
  case (1 sstep U worldPos N V albedo metallic roughness F0 i Lo)
  show ?case
  proof (cases "i < u_numLights U \<and> i < MAX_LIGHTS")
    case True
    then have le: "i \<le> min (u_numLights U) MAX_LIGHTS - 1" by simp
    show ?thesis
      using True "1.IH"
      by (subst lightLoop.simps, subst upto_rec1 [OF le]) (simp split: option.splits)
  next
    case False
    then have "min (u_numLights U) MAX_LIGHTS - 1 < i" by auto
    then have "[i .. min (u_numLights U) MAX_LIGHTS - 1] = []" by simp
    moreover have "lightLoop sstep U worldPos N V albedo metallic roughness F0 i Lo = Some Lo"
      using False by (subst lightLoop.simps) auto
    ultimately show ?thesis by simp
  qed
qed

lemma lightAt_numLights:
  "lightAt sstep (U\<lparr>u_numLights := n\<rparr>) worldPos N V albedo metallic roughness F0
   = lightAt sstep U worldPos N V albedo metallic roughness F0"
  by (rule ext) (simp add: lightAt_def)

lemma accumulate_None:
  "(accumulate f is Lo = None) = list_ex (\<lambda>i. f i = None) is"
  by (induction "is" arbitrary: Lo) (auto split: option.splits)

lemma lightAt_None:
  "(lightAt sstep U worldPos N V albedo metallic roughness F0 i = None)
   = (u_lightTypes U i \<notin> {LIGHT_DIRECTIONAL, LIGHT_POINT, LIGHT_SPOT})"
  by (simp add: lightAt_def calculateLightContribution_def lightVector_def Let_def
      split: option.splits)

text \<open>
  C3. For every value of \<^verbatim>\<open>u_numLights\<close>, also above 8 and also negative, the loop adds to
  \<open>Lo\<close> the contributions of exactly the lights at the indices \<open>0 \<le> i < min(u_numLights, 8)\<close>,
  in order. A count beyond \<^verbatim>\<open>MAX_LIGHTS = 8\<close> gives what the count 8 gives; every index read
  lies in \<open>0..7\<close>, so no light at index 8 or above contributes; and the loop has a defined
  result unless one of the lights it reads has a type other than 0, 1 and 2.
\<close>

theorem light_loop_clamped:
  "lightLoop sstep U worldPos N V albedo metallic roughness F0 0 Lo
     = accumulate (lightAt sstep U worldPos N V albedo metallic roughness F0)
         [0 .. min (u_numLights U) 8 - 1] Lo
   \<and> lightLoop sstep U worldPos N V albedo metallic roughness F0 0 Lo
     = lightLoop sstep (U\<lparr>u_numLights := min (u_numLights U) 8\<rparr>) worldPos N V albedo metallic
         roughness F0 0 Lo
   \<and> set [0 .. min (u_numLights U) 8 - 1] \<subseteq> {0 ..< 8}
   \<and> (lightLoop sstep U worldPos N V albedo metallic roughness F0 0 Lo = None)
     = list_ex (\<lambda>i. u_lightTypes U i \<notin> {LIGHT_DIRECTIONAL, LIGHT_POINT, LIGHT_SPOT})
         [0 .. min (u_numLights U) 8 - 1]"
proof -
  have a: "lightLoop sstep U worldPos N V albedo metallic roughness F0 0 Lo
     = accumulate (lightAt sstep U worldPos N V albedo metallic roughness F0)
         [0 .. min (u_numLights U) 8 - 1] Lo"
    using lightLoop_accumulate [of sstep U worldPos N V albedo metallic roughness F0 0 Lo]
    by (simp add: MAX_LIGHTS_def)
  have b: "lightLoop sstep (U\<lparr>u_numLights := min (u_numLights U) 8\<rparr>) worldPos N V albedo metallic
         roughness F0 0 Lo
     = accumulate (lightAt sstep U worldPos N V albedo metallic roughness F0)
         [0 .. min (u_numLights U) 8 - 1] Lo"
    by (simp add: lightLoop_accumulate lightAt_numLights MAX_LIGHTS_def)
  have c: "set [0 .. min (u_numLights U) 8 - 1] \<subseteq> {0 ..< 8}"
    by auto
  have d: "(lightLoop sstep U worldPos N V albedo metallic roughness F0 0 Lo = None)
     = list_ex (\<lambda>i. u_lightTypes U i \<notin> {LIGHT_DIRECTIONAL, LIGHT_POINT, LIGHT_SPOT})
         [0 .. min (u_numLights U) 8 - 1]"
    unfolding a accumulate_None lightAt_None ..
  from a b c d show ?thesis by simp
qed

subsection \<open>Metals have no diffuse term\<close>

lemma scale_zero: "scale v 0 = splat 0"
  by (simp add: scale_def splat_def)

lemma splat0_times: "splat 0 * v = splat 0"
  by (simp add: times_vec3_def splat_def)

lemma splat0_plus: "splat 0 + v = v"
  by (cases v) (simp add: plus_vec3_def splat_def)

lemma divs_splat0: "divs (splat 0) s = splat 0"
  by (simp add: divs_def splat_def)

text \<open>
  C4. With \<open>metallic = 1\<close>, for every light, every albedo and every roughness, the diffuse
  term of the direct-lighting BRDF is the zero vector (\<open>kD = (1 - F) * (1 - metallic) = 0\<close>),
  so the radiance of a light is its specular term alone; the diffuse summand of the IBL
  ambient term is the zero vector too, and the ambient colour is the IBL specular term
  scaled by \<open>ao\<close> and the IBL intensity.
\<close>

theorem metallic_no_diffuse:
  "diffuseTerm F 1 albedo = splat 0
   \<and> shade L attenuation lightColor N V albedo 1 roughness F0
     = (let H = normalize (V + L);
            F = fresnelSchlick (max (dot H V) 0) F0
        in scale (specularTerm L N V H roughness F * scale lightColor attenuation)
             (max (dot N L) 0))
   \<and> iblDiffuseTerm N albedo 1 F = splat 0
   \<and> ambientTerm (U\<lparr>u_useIBL := True\<rparr>) N V R albedo 1 roughness ao F0
     = scale (scale (iblSpecularTerm R roughness
                (fresnelSchlickRoughness (max (dot N V) 0) F0 roughness)) ao) (u_iblIntensity U)"
proof -
  have d: "\<And>F. diffuseTerm F 1 albedo = splat 0"
    by (simp add: diffuseTerm_def scale_zero splat0_times divs_splat0)
  have i: "\<And>F. iblDiffuseTerm N albedo 1 F = splat 0"
    by (simp add: iblDiffuseTerm_def scale_zero splat0_times)
  have s: "shade L attenuation lightColor N V albedo 1 roughness F0
     = (let H = normalize (V + L);
            F = fresnelSchlick (max (dot H V) 0) F0
        in scale (specularTerm L N V H roughness F * scale lightColor attenuation)
             (max (dot N L) 0))"
    by (simp add: shade_def d splat0_plus Let_def)
  have a: "ambientTerm (U\<lparr>u_useIBL := True\<rparr>) N V R albedo 1 roughness ao F0
     = scale (scale (iblSpecularTerm R roughness
                (fresnelSchlickRoughness (max (dot N V) 0) F0 roughness)) ao) (u_iblIntensity U)"
    by (simp add: ambientTerm_def i splat0_plus Let_def)
  from d i s a show ?thesis by simp
qed

subsection \<open>The denominators of the distribution and geometry terms\<close>











subsection \<open>Distance attenuation of Point and Spot lights\<close>








lemma attenuation_zero_intensity: "distanceAttenuation sstep 0 r d = 0"
  by (simp add: distanceAttenuation_def)





section \<open>Properties of scene objects\<close>

text \<open>
  C10. For every material record given to the \<^verbatim>\<open>SceneObject\<close> constructor, the stored
  metallic, roughness and ao are the given values passed through \<^verbatim>\<open>||\<close>: a roughness 0
  is stored as the default 0.5 and an ao 0 as the default 1.0, so the stored roughness and
  ao are never 0; a metallic 0 stays 0, its default being 0.
\<close>

theorem constructor_defaults:
  assumes "materials s material = Some m"
  shows "\<exists>obj s' m'. SceneObject_constructor mesh material modelMatrix s = Inr (obj, s')
     \<and> materials s' (so_material obj) = Some m'
     \<and> mat_metallic m' = Some (or_default (mat_metallic m) 0)
     \<and> mat_roughness m' = Some (or_default (mat_roughness m) 0.5)
     \<and> mat_ao m' = Some (or_default (mat_ao m) 1)
     \<and> mat_roughness m' \<noteq> Some 0 \<and> mat_ao m' \<noteq> Some 0
     \<and> (mat_roughness m = Some 0 \<longrightarrow> mat_roughness m' = Some 0.5)
     \<and> (mat_ao m = Some 0 \<longrightarrow> mat_ao m' = Some 1)
     \<and> (mat_metallic m = Some 0 \<longrightarrow> mat_metallic m' = Some 0)"
  using assms
  by (auto simp: SceneObject_constructor_def new_material_def new_array_def or_default_def
      Let_def split: option.splits prod.splits)

theorem constructor_defaults_witness:
  "\<exists>obj s' m'. SceneObject_constructor None 1 [] (rendererStore (Some 0) (Some 0) (Some 0))
       = Inr (obj, s')
     \<and> materials s' (so_material obj) = Some m'
     \<and> mat_metallic m' = Some 0 \<and> mat_roughness m' = Some 0.5 \<and> mat_ao m' = Some 1"
proof -
  have m: "materials (rendererStore (Some 0) (Some 0) (Some 0)) 1
      = Some \<lparr> mat_albedo = Some 0, mat_metallic = Some 0, mat_roughness = Some 0,
               mat_ao = Some 0 \<rparr>"
    by (simp add: rendererStore_def)
  show ?thesis
    using constructor_defaults [OF m, of None "[]"] by (auto simp: or_default_def)
qed

text \<open>
  C2, at the input where the code departs from it. Two objects are built from the
  renderer's material record (albedo \<^verbatim>\<open>[0.7, 0.3, 0.3]\<close>, roughness 0.5). Writing the
  roughness of the first leaves the second and the record as they were; writing component 0
  of the albedo of the first changes the albedo read through the second object and through
  the record, since the three hold the same array.
\<close>

theorem albedo_array_shared:
  "two_objects 1 (\<lambda>obj. set_roughness obj 0.9) (rendererStore (Some 0) (Some 0.5) (Some 1))
     = Some ((Some [Some 0.7, Some 0.3, Some 0.3], Some 0.9),
             (Some [Some 0.7, Some 0.3, Some 0.3], Some 0.5),
             (Some [Some 0.7, Some 0.3, Some 0.3], Some 0.5))
   \<and> two_objects 1 (\<lambda>obj. set_albedo_component obj 0 0.1)
       (rendererStore (Some 0) (Some 0.5) (Some 1))
     = Some ((Some [Some 0.1, Some 0.3, Some 0.3], Some 0.5),
             (Some [Some 0.1, Some 0.3, Some 0.3], Some 0.5),
             (Some [Some 0.1, Some 0.3, Some 0.3], Some 0.5))"
  by (simp add: two_objects_def SceneObject_constructor_def rendererStore_def new_material_def
      set_albedo_component_def set_roughness_def albedo_of_def roughness_of_def
      array_write_def or_default_def)

section \<open>Properties of the camera\<close>

text \<open>
  C8. For every requested radius, \<^verbatim>\<open>setRadius\<close> stores
  \<open>max(minRadius, min(maxRadius, radius))\<close>, which is the requested radius clamped to
  \<open>[minRadius, maxRadius]\<close>; a request below \<open>minRadius\<close> stores \<open>minRadius\<close>. On return the
  position is \<open>target + radius * (cos(elevation) cos(azimuth), sin(elevation),
  cos(elevation) sin(azimuth))\<close> for the stored, clamped radius, and the view matrix is the
  look-at matrix of that position, the target and the up vector: it is never that of the
  requested radius and never stale. Target, up vector and angles are unchanged.
\<close>

theorem setRadius_clamps:
  "radius (setRadius lookAt r c) = max (minRadius c) (min (maxRadius c) r)
   \<and> (minRadius c \<le> maxRadius c
        \<longrightarrow> radius (setRadius lookAt r c) = clamp r (minRadius c) (maxRadius c))
   \<and> (r < minRadius c \<longrightarrow> radius (setRadius lookAt r c) = minRadius c)
   \<and> position (setRadius lookAt r c) = orbitPosition (setRadius lookAt r c)
   \<and> viewMatrix (setRadius lookAt r c)
     = lookAt (orbitPosition (setRadius lookAt r c)) (target (setRadius lookAt r c))
         (up (setRadius lookAt r c))
   \<and> target (setRadius lookAt r c) = target c \<and> up (setRadius lookAt r c) = up c
   \<and> azimuth (setRadius lookAt r c) = azimuth c
   \<and> elevation (setRadius lookAt r c) = elevation c"
  by (cases "target c")
    (auto simp: setRadius_def updateViewMatrix_def orbitPosition_def Let_def clamp_def
      plus_vec3_def scale_def algebra_simps)

text \<open>
  At the camera the constructor builds (radius 5, bounds 1 and 20), with a stand-in for
  \<^verbatim>\<open>mat4.lookAt\<close> that returns the eye position: a request of 0.5 stores the radius 1 and
  puts the eye at \<open>(1, 0, 0)\<close>.
\<close>

theorem setRadius_clamps_witness:
  "radius (setRadius (\<lambda>eye center upward. [vx eye, vy eye, vz eye]) 0.5
       (Camera_constructor (\<lambda>eye center upward. [vx eye, vy eye, vz eye]))) = 1
   \<and> position (setRadius (\<lambda>eye center upward. [vx eye, vy eye, vz eye]) 0.5
       (Camera_constructor (\<lambda>eye center upward. [vx eye, vy eye, vz eye]))) = vec3 1 0 0
   \<and> viewMatrix (setRadius (\<lambda>eye center upward. [vx eye, vy eye, vz eye]) 0.5
       (Camera_constructor (\<lambda>eye center upward. [vx eye, vy eye, vz eye]))) = [1, 0, 0]"
  using setRadius_clamps [of "\<lambda>eye center upward. [vx eye, vy eye, vz eye]" "0.5"
      "Camera_constructor (\<lambda>eye center upward. [vx eye, vy eye, vz eye])"]
  by (simp add: Camera_constructor_def updateViewMatrix_def orbitPosition_def plus_vec3_def
      scale_def clamp_def Let_def)

section \<open>Properties of the uniform manager and of the frame\<close>

text \<open>
  C7. For every name that is not a key of the uniform cache, \<^verbatim>\<open>setUniform\<close> returns
  without throwing, its only effect is one warning on the console, and it makes no call
  on the WebGL context: the history of calls is the same before and after, so every
  uniform bound before keeps its value.
\<close>

theorem setUniform_unknown_name:
  assumes "\<not> hasUniform um name"
  shows "setUniform env um name values w
       = Inr (w\<lparr>console := console w @
               [console_warn (''Uniform '' @ [CHR 0x27] @ name @ [CHR 0x27] @ '' not found'')]\<rparr>)
     \<and> (\<exists>w'. setUniform env um name values w = Inr w' \<and> glcalls w' = glcalls w)"
  using assms by (simp add: setUniform_def hasUniform_def warn_not_found_def log_line_def)

text \<open>
  A cache that holds \<^verbatim>\<open>u_roughness\<close> only, after one binding of it: setting the ninth
  light type warns and leaves the recorded binding alone.
\<close>

theorem setUniform_unknown_name_witness:
  "setUniform quietContext (cacheUniforms [(''u_roughness'', Some 3, GL_FLOAT)])
       ''u_lightTypes[8]'' [Num 0] \<lparr>glcalls = [uniform1f 3 (Num 0.5)], console = []\<rparr>
     = Inr \<lparr>glcalls = [uniform1f 3 (Num 0.5)],
            console = [console_warn ''Uniform 'u_lightTypes[8]' not found'']\<rparr>"
proof -
  have h: "\<not> hasUniform (cacheUniforms [(''u_roughness'', Some 3, GL_FLOAT)]) ''u_lightTypes[8]''"
    by (simp add: hasUniform_def cacheUniforms_def)
  show ?thesis
    using setUniform_unknown_name [OF h, of quietContext "[Num 0]"
        "\<lparr>glcalls = [uniform1f 3 (Num 0.5)], console = []\<rparr>"]
    by simp
qed


subsection \<open>What a step adds to the history of the context\<close>












subsection \<open>The steps of a frame\<close>

















subsection \<open>A context that throws on no call\<close>









subsection \<open>The frame of the renderer as the constructor builds it\<close>





subsection \<open>Global uniforms come before the objects\<close>




end
